theory Spec2Isabelle
  imports Main "HOL-Library.Sublist"
begin

section \<open>Data model\<close>

text \<open>
  The checkout command of isomorphic-git (\<^verbatim>\<open>src/commands/checkout.js\<close>) and the
  \<^verbatim>\<open>currentBranch\<close> command. JavaScript values that may be \<^verbatim>\<open>undefined\<close> are
  options, \<^verbatim>\<open>===\<close> on them is equality (\<^verbatim>\<open>undefined === undefined\<close> holds).
\<close>

subsection \<open>Errors\<close>

text \<open>
  The codes of \<^verbatim>\<open>E\<close> (models/GitError.js) that the two commands use, and
  \<open>OtherCode\<close> for the code of any error raised by a collaborator.
  \<open>ReferenceError\<close> is the JavaScript error for an identifier that is not declared.
\<close>

datatype error_code =
    MissingRequiredParameterError
  | InternalFail
  | NotImplementedFail
  | ObjectTypeAssertionInTreeFail
  | ReadObjectFail
  | CommitNotFetchedError
  | ReferenceError
  | OtherCode string

text \<open>
  \<^verbatim>\<open>new GitError(code, data)\<close>: the code, the data object as the list of its
  properties, and the \<^verbatim>\<open>caller\<close> property that the commands set in their outer
  \<^verbatim>\<open>catch\<close>.
\<close>

record git_error =
  code :: error_code
  data :: "(string \<times> string option) list"
  caller :: "string option"

definition GitError :: "error_code \<Rightarrow> (string \<times> string option) list \<Rightarrow> git_error" where
  "GitError c d = \<lparr>code = c, data = d, caller = None\<rparr>"

text \<open>\<^verbatim>\<open>err.data[k]\<close>: \<^verbatim>\<open>undefined\<close> when the property is missing.\<close>

definition data_get :: "git_error \<Rightarrow> string \<Rightarrow> string option" where
  "data_get e k = (case map_of (data e) k of None \<Rightarrow> None | Some v \<Rightarrow> v)"

text \<open>A value inside a template literal: \<^verbatim>\<open>undefined\<close> prints as its name.\<close>

definition js_str :: "string option \<Rightarrow> string" where
  "js_str v = (case v of None \<Rightarrow> ''undefined'' | Some s \<Rightarrow> s)"

subsection \<open>Walker entries and queued operations\<close>

text \<open>
  A WalkerEntry as the callbacks read it, after the \<^verbatim>\<open>populateStat\<close>,
  \<^verbatim>\<open>populateHash\<close> and \<^verbatim>\<open>populateContent\<close> calls that precede each read:
  \<open>etype\<close> is the source's \<^verbatim>\<open>type\<close>. The walkers are not part of the sources
  at hand; a populate call that throws is a failing step of the walk (see \<open>walk_step\<close>),
  and in both callbacks every populate call of a branch comes before the branch's
  first effect.
\<close>

record walker_entry =
  fullpath :: string
  exists :: bool
  etype :: "string option"
  mode :: "string option"
  oid :: "string option"
  content :: string

text \<open>
  \<^verbatim>\<open>{op: 'unlink', filepath}\<close> and \<^verbatim>\<open>{op: 'write', filepath, oid, mode}\<close>.
\<close>

datatype operation =
    Unlink string
  | Write string "string option" "string option"

type_synonym plan = "operation list \<times> git_error list"

section \<open>The classification callback\<close>

text \<open>The three conflict messages of the callback (lines 122, 148 and 179).\<close>

definition deleted_msg :: "string \<Rightarrow> string \<Rightarrow> string" where
  "deleted_msg p r = ''Your file '' @ p @ '' has local changes but has been deleted in '' @ r
     @ ''. Commit or stash your changes before checking out '' @ r @ ''.''"

definition added_msg :: "string \<Rightarrow> string \<Rightarrow> string" where
  "added_msg p r = ''You added file '' @ p
     @ '' but a different file with the same name was added in '' @ r
     @ ''. Commit or stash your changes before checking out '' @ r @ ''.''"

definition changed_msg :: "string \<Rightarrow> string \<Rightarrow> string" where
  "changed_msg p r = ''Your file '' @ p @ '' has local changes but has been changed in '' @ r
     @ ''. Commit or stash your changes before checking out '' @ r @ ''.''"

definition conflict :: "string \<Rightarrow> git_error" where
  "conflict m = GitError InternalFail [(''message'', Some m)]"

text \<open>
  \<^verbatim>\<open>map: async function ([workdir, stage, head, next])\<close> of the first walk
  (checkout.js, lines 87 to 185), with \<^verbatim>\<open>operations\<close> and \<^verbatim>\<open>errors\<close> passed
  in and returned. The \<^verbatim>\<open>console.log\<close> of the submodule case has no effect on them.
\<close>

definition classify_map ::
  "string \<Rightarrow> walker_entry \<times> walker_entry \<times> walker_entry \<times> walker_entry \<Rightarrow> plan \<Rightarrow> plan" where
  "classify_map r q p =
     (case q of (workdir, stage, head, next) \<Rightarrow>
      case p of (operations, errors) \<Rightarrow>
        if fullpath workdir = ''.'' then (operations, errors)
        else if \<not> exists head \<and> \<not> exists next then (operations, errors)
        else if etype next = Some ''tree'' then (operations, errors)
        else if etype next = Some ''commit'' then (operations, errors)
        else if exists head \<and> \<not> exists next then
          (if \<not> exists workdir then (operations, errors)
           else if oid workdir = oid head
             then (operations @ [Unlink (fullpath workdir)], errors)
             else (operations, errors @ [conflict (deleted_msg (fullpath workdir) r)]))
        else if \<not> exists head \<and> exists next then
          (if \<not> exists workdir
             then (operations @ [Write (fullpath workdir) (oid next) (mode next)], errors)
           else if oid workdir = oid next then (operations, errors)
             else (operations, errors @ [conflict (added_msg (fullpath workdir) r)]))
        else if exists head \<and> exists next then
          (if oid head = oid next then (operations, errors)
           else if oid workdir = oid next then (operations, errors)
           else if oid workdir = oid head
             then (operations @ [Write (fullpath workdir) (oid next) (mode next)], errors)
             else (operations, errors @ [conflict (changed_msg (fullpath workdir) r)]))
        else (operations, errors))"

text \<open>
  The table of the specification, in its words: the outcome for one path from
  \<open>head\<close> (old tree), \<open>next\<close> (new tree) and \<open>workdir\<close>.
\<close>

datatype outcome = NoOp | QueueUnlink | QueueWrite | Conflict

definition spec_table :: "walker_entry \<Rightarrow> walker_entry \<Rightarrow> walker_entry \<Rightarrow> outcome" where
  "spec_table head next workdir =
     (if \<not> exists head \<and> \<not> exists next then NoOp
      else if exists head \<and> \<not> exists next then
        (if oid workdir = oid head then QueueUnlink else Conflict)
      else if \<not> exists head \<and> exists next then
        (if \<not> exists workdir then QueueWrite
         else if oid workdir = oid next then NoOp else Conflict)
      else
        (if oid head = oid next \<or> oid workdir = oid next then NoOp
         else if oid workdir = oid head then QueueWrite else Conflict))"

text \<open>
  What the callback does on every path, as the code has it: the root, directories and
  submodules of the new tree are skipped, and a path deleted in the new tree whose
  file is already gone from the working directory is left alone.
\<close>

definition code_table :: "walker_entry \<Rightarrow> walker_entry \<Rightarrow> walker_entry \<Rightarrow> outcome" where
  "code_table head next workdir =
     (if fullpath workdir = ''.'' \<or> etype next = Some ''tree'' \<or> etype next = Some ''commit''
        then NoOp
      else if \<not> exists head \<and> \<not> exists next then NoOp
      else if exists head \<and> \<not> exists next then
        (if \<not> exists workdir then NoOp
         else if oid workdir = oid head then QueueUnlink else Conflict)
      else if \<not> exists head \<and> exists next then
        (if \<not> exists workdir then QueueWrite
         else if oid workdir = oid next then NoOp else Conflict)
      else
        (if oid head = oid next \<or> oid workdir = oid next then NoOp
         else if oid workdir = oid head then QueueWrite else Conflict))"

text \<open>
  What an outcome means for the two lists: nothing changes; one \<^verbatim>\<open>unlink\<close> of the
  path is appended; one \<^verbatim>\<open>write\<close> of the path with the new tree's oid and mode is
  appended; one \<open>InternalFail\<close> error is appended to \<^verbatim>\<open>errors\<close>.
\<close>

definition realises :: "outcome \<Rightarrow> walker_entry \<Rightarrow> walker_entry \<Rightarrow> plan \<Rightarrow> plan \<Rightarrow> bool" where
  "realises out workdir next before after =
     (case out of
        NoOp \<Rightarrow> after = before
      | QueueUnlink \<Rightarrow> after = (fst before @ [Unlink (fullpath workdir)], snd before)
      | QueueWrite \<Rightarrow>
          after = (fst before @ [Write (fullpath workdir) (oid next) (mode next)], snd before)
      | Conflict \<Rightarrow>
          fst after = fst before \<and> snd after = snd before @ [last (snd after)]
          \<and> code (last (snd after)) = InternalFail)"

section \<open>The environment\<close>

text \<open>
  The file system, the config store, the ref manager, the object store, the index and
  the walkers are collaborators whose sources are not at hand. Every call that can
  change something is recorded, in order, with its outcome (\<open>None\<close>, or the error it
  threw); the collaborators answer as functions of the calls made so far.
\<close>

record stats =
  stat_mode :: nat
  stat_rest :: string

datatype call =
    ConfigSet string string string
  | FsWrite string string "nat option"
  | FsWritelink string string
  | FsRm string
  | FsMkdir string
  | Acquire string
  | IndexSave string
  | Release
  | IndexClear
  | IndexInsert string stats "string option"

type_synonym event = "call \<times> git_error option"
type_synonym history = "event list"

text \<open>One step of a walk: the callback is called on the entries, or the walker throws.\<close>

datatype 'a walk_step = Visit 'a | Throw git_error

text \<open>
  \<open>throws\<close>: the error a recorded call throws, if any.
  \<open>resolve h gitdir ref depth\<close>, \<open>expand h gitdir ref\<close> and \<open>abbrev h gitdir ref\<close>
  are \<^verbatim>\<open>GitRefManager\<close>'s methods; \<open>lstat h filepath\<close> is \<^verbatim>\<open>fs.lstat\<close>;
  \<open>readObject h gitdir oid\<close> is what the destructuring
  \<^verbatim>\<open>let { type, object } = readObject(...)\<close> binds;
  \<open>walk_classify h dir gitdir currentRef ref\<close> and \<open>walk_materialize h dir gitdir ref\<close>
  are the steps that \<^verbatim>\<open>walkBeta1\<close> takes over the four and the two walkers;
  \<open>index_paths h gitdir\<close> are the paths of the entries of the index, in the order of
  its iterator; \<open>path_join\<close> is Node's \<^verbatim>\<open>path.join\<close>.
\<close>

record env =
  path_join :: "string \<Rightarrow> string \<Rightarrow> string"
  throws :: "history \<Rightarrow> call \<Rightarrow> git_error option"
  resolve :: "history \<Rightarrow> string \<Rightarrow> string \<Rightarrow> nat option \<Rightarrow> git_error + string"
  expand :: "history \<Rightarrow> string \<Rightarrow> string \<Rightarrow> git_error + string"
  abbrev :: "history \<Rightarrow> string \<Rightarrow> string \<Rightarrow> string"
  lstat :: "history \<Rightarrow> string \<Rightarrow> git_error + stats"
  readObject :: "history \<Rightarrow> string \<Rightarrow> string option \<Rightarrow> git_error + (string option \<times> string option)"
  walk_classify :: "history \<Rightarrow> string \<Rightarrow> string \<Rightarrow> string \<Rightarrow> string
     \<Rightarrow> (walker_entry \<times> walker_entry \<times> walker_entry \<times> walker_entry) walk_step list"
  walk_materialize :: "history \<Rightarrow> string \<Rightarrow> string \<Rightarrow> string
     \<Rightarrow> (walker_entry \<times> walker_entry) walk_step list"
  index_paths :: "history \<Rightarrow> string \<Rightarrow> string list"

text \<open>An \<^verbatim>\<open>await\<close>ed call: it is recorded, and its error, if any, is thrown.\<close>

definition perform :: "env \<Rightarrow> history \<Rightarrow> call \<Rightarrow> history \<times> (git_error + unit)" where
  "perform E h c =
     (case throws E h c of
        None \<Rightarrow> (h @ [(c, None)], Inr ())
      | Some err \<Rightarrow> (h @ [(c, Some err)], Inl err))"

text \<open>Sequencing: an error ends the computation, a value goes on with the history.\<close>

definition then_do ::
  "history \<times> (git_error + 'a) \<Rightarrow> (history \<Rightarrow> 'a \<Rightarrow> history \<times> (git_error + 'b))
     \<Rightarrow> history \<times> (git_error + 'b)" where
  "then_do m f = (case m of (h, Inl err) \<Rightarrow> (h, Inl err) | (h, Inr x) \<Rightarrow> f h x)"

definition newline :: string where
  "newline = [CHR 0x0A]"

section \<open>currentBranch\<close>

text \<open>The default of both commands: \<^verbatim>\<open>gitdir = path.join(dir, '.git')\<close>.\<close>

definition default_gitdir :: "env \<Rightarrow> string \<Rightarrow> string option \<Rightarrow> string" where
  "default_gitdir E dir gitdir_arg =
     (case gitdir_arg of None \<Rightarrow> path_join E dir ''.git'' | Some g \<Rightarrow> g)"

text \<open>
  \<^verbatim>\<open>currentBranch({dir, gitdir = path.join(dir, '.git'), fullname = false})\<close>.
  \<^verbatim>\<open>GitRefManager.abbrev\<close> is taken to return a name.
\<close>

definition currentBranch ::
  "env \<Rightarrow> history \<Rightarrow> string \<Rightarrow> string option \<Rightarrow> bool option \<Rightarrow> git_error + string" where
  "currentBranch E h dir gitdir_arg fullname_arg =
     (let gitdir = default_gitdir E dir gitdir_arg;
          fullname = (case fullname_arg of None \<Rightarrow> False | Some b \<Rightarrow> b)
      in case resolve E h gitdir ''HEAD'' (Some 2) of
           Inl err \<Rightarrow> Inl (err\<lparr>caller := Some ''git.currentBranch''\<rparr>)
         | Inr ref \<Rightarrow> if fullname then Inr ref else Inr (abbrev E h gitdir ref))"

section \<open>checkout\<close>

subsection \<open>Resolving the target (lines 39 to 68)\<close>

text \<open>
  The oid of \<^verbatim>\<open>ref\<close>; when \<^verbatim>\<open>ref\<close> does not resolve, the oid of
  \<^verbatim>\<open>${remote}/${ref}\<close>, after which the tracking configuration and the new branch
  are written.
\<close>

definition resolve_target ::
  "env \<Rightarrow> history \<Rightarrow> string \<Rightarrow> string \<Rightarrow> string \<Rightarrow> history \<times> (git_error + string)" where
  "resolve_target E h gitdir remote ref =
     (case resolve E h gitdir ref None of
        Inr target \<Rightarrow> (h, Inr target)
      | Inl _ \<Rightarrow>
          (let remoteRef = remote @ ''/'' @ ref in
           case resolve E h gitdir remoteRef None of
             Inl err \<Rightarrow> (h, Inl err)
           | Inr target \<Rightarrow>
               then_do (perform E h (ConfigSet gitdir (''branch.'' @ ref @ ''.remote'') remote))
                 (\<lambda>h1 _.
               then_do (perform E h1
                   (ConfigSet gitdir (''branch.'' @ ref @ ''.merge'') (''refs/heads/'' @ ref)))
                 (\<lambda>h2 _.
               then_do (perform E h2
                   (FsWrite (gitdir @ ''/refs/heads/'' @ ref) (target @ newline) None))
                 (\<lambda>h3 _. (h3, Inr target))))))"

subsection \<open>The classification walk (lines 75 to 186)\<close>

text \<open>
  Modelled from the spec: \<^verbatim>\<open>walkBeta1\<close> is not among the sources; by section 4.4
  it invokes \<^verbatim>\<open>map\<close> once per path, in ascending path order, here the order of the
  steps. A step that throws ends the walk with that error.
\<close>

fun run_classify ::
  "string \<Rightarrow> (walker_entry \<times> walker_entry \<times> walker_entry \<times> walker_entry) walk_step list
     \<Rightarrow> plan \<Rightarrow> git_error + plan" where
  "run_classify ref [] p = Inr p"
| "run_classify ref (Throw err # rest) p = Inl err"
| "run_classify ref (Visit q # rest) p = run_classify ref rest (classify_map ref q p)"

subsection \<open>The apply phase (lines 199 to 319)\<close>

text \<open>
  The first loop (lines 203 to 209): \<^verbatim>\<open>try { await fs.rm(...) } catch (err) {}\<close> for
  every \<^verbatim>\<open>unlink\<close>; whatever the call throws is dropped.
\<close>

fun apply_unlinks :: "env \<Rightarrow> string \<Rightarrow> operation list \<Rightarrow> history \<Rightarrow> history" where
  "apply_unlinks E dir [] h = h"
| "apply_unlinks E dir (Unlink filepath # ops) h =
     apply_unlinks E dir ops (fst (perform E h (FsRm (dir @ ''/'' @ filepath))))"
| "apply_unlinks E dir (Write filepath target m # ops) h = apply_unlinks E dir ops h"

text \<open>
  The second loop (lines 210 to 229), as far as the source goes: the result of
  \<^verbatim>\<open>readObject\<close> is destructured without \<^verbatim>\<open>await\<close>; the type is checked;
  for mode \<^verbatim>\<open>'100644'\<close> the argument \<^verbatim>\<open>filepath\<close> of \<^verbatim>\<open>fs.write\<close> is an
  identifier that no enclosing scope declares, so evaluating it throws a
  \<open>ReferenceError\<close> before \<^verbatim>\<open>fs.write\<close> is called; the \<^verbatim>\<open>switch\<close> then has only
  the label \<^verbatim>\<open>'---CONTINUE HERE---'\<close>, with no statement, where the text breaks off,
  so any other mode does nothing. \<^verbatim>\<open>op.fullpath\<close> is not a property of an operation.
\<close>

fun apply_writes :: "env \<Rightarrow> string \<Rightarrow> operation list \<Rightarrow> history \<Rightarrow> git_error + unit" where
  "apply_writes E gitdir [] h = Inr ()"
| "apply_writes E gitdir (Unlink filepath # ops) h = apply_writes E gitdir ops h"
| "apply_writes E gitdir (Write filepath target m # ops) h =
     (case readObject E h gitdir target of
        Inl err \<Rightarrow> Inl err
      | Inr (type, object) \<Rightarrow>
          if type \<noteq> Some ''blob'' then
            Inl (GitError ObjectTypeAssertionInTreeFail
                   [(''type'', type), (''oid'', target), (''entrypath'', None)])
          else if m = Some ''100644'' then
            Inl (GitError ReferenceError [(''message'', Some ''filepath is not defined'')])
          else apply_writes E gitdir ops h)"

text \<open>
  The third loop (lines 234 to 238): every entry of the index is removed from the
  working directory, again inside \<^verbatim>\<open>try { } catch (err) {}\<close>.
\<close>

fun remove_entries :: "env \<Rightarrow> string \<Rightarrow> string list \<Rightarrow> history \<Rightarrow> history" where
  "remove_entries E dir [] h = h"
| "remove_entries E dir (p # ps) h =
     remove_entries E dir ps (fst (perform E h (FsRm (path_join E dir p))))"

text \<open>
  The blob case of the second callback up to the write (lines 269 to 284); the
  permission \<^verbatim>\<open>0o755\<close> is 493.
\<close>

definition invalid_mode_msg :: "walker_entry \<Rightarrow> string" where
  "invalid_mode_msg head = ''Invalid mode '' @ [CHR 0x22] @ js_str (mode head) @ [CHR 0x22]
     @ '' detected in blob '' @ js_str (oid head)"

definition write_blob ::
  "env \<Rightarrow> history \<Rightarrow> string \<Rightarrow> walker_entry \<Rightarrow> history \<times> (git_error + unit)" where
  "write_blob E h filepath head =
     (if mode head = Some ''100644'' then perform E h (FsWrite filepath (content head) None)
      else if mode head = Some ''100755''
        then perform E h (FsWrite filepath (content head) (Some 493))
      else if mode head = Some ''120000'' then perform E h (FsWritelink filepath (content head))
      else (h, Inl (GitError InternalFail [(''message'', Some (invalid_mode_msg head))])))"

text \<open>
  The rest of the blob case (lines 285 to 296): the stat of the file just written,
  its mode replaced by \<^verbatim>\<open>0o755\<close> for an executable, goes into the index with the
  path and the oid.
\<close>

definition record_blob ::
  "env \<Rightarrow> walker_entry \<Rightarrow> string \<Rightarrow> history \<Rightarrow> history \<times> (git_error + unit)" where
  "record_blob E head filepath h =
     (case lstat E h filepath of
        Inl err \<Rightarrow> (h, Inl err)
      | Inr st \<Rightarrow>
          perform E h
            (IndexInsert (fullpath head)
               (if mode head = Some ''100755'' then st\<lparr>stat_mode := 493\<rparr> else st)
               (oid head)))"

text \<open>
  \<^verbatim>\<open>map: async function ([head, workdir])\<close> of the second walk (lines 246 to 307).
  The \<^verbatim>\<open>console.log\<close> of the submodule case is not recorded.
\<close>

definition materialize_map ::
  "env \<Rightarrow> string \<Rightarrow> walker_entry \<times> walker_entry \<Rightarrow> history \<Rightarrow> history \<times> (git_error + unit)" where
  "materialize_map E dir q h =
     (case q of (head, workdir) \<Rightarrow>
        if fullpath head = ''.'' then (h, Inr ())
        else if \<not> exists head then (h, Inr ())
        else
          (let filepath = dir @ ''/'' @ fullpath head in
           if etype head = Some ''tree'' then
             (if \<not> exists workdir then perform E h (FsMkdir filepath) else (h, Inr ()))
           else if etype head = Some ''commit'' then (h, Inr ())
           else if etype head = Some ''blob'' then
             then_do (write_blob E h filepath head) (\<lambda>h1 _. record_blob E head filepath h1)
           else
             (h, Inl (GitError ObjectTypeAssertionInTreeFail
                        [(''type'', etype head), (''oid'', oid head),
                         (''entrypath'', Some (fullpath head))]))))"

text \<open>
  Modelled from the spec: the second run of \<^verbatim>\<open>walkBeta1\<close> (section 4.4), one call
  of the callback per step, in order; the first error ends the walk.
\<close>

fun run_materialize ::
  "env \<Rightarrow> string \<Rightarrow> (walker_entry \<times> walker_entry) walk_step list \<Rightarrow> history
     \<Rightarrow> history \<times> (git_error + unit)" where
  "run_materialize E dir [] h = (h, Inr ())"
| "run_materialize E dir (Throw err # rest) h = (h, Inl err)"
| "run_materialize E dir (Visit q # rest) h =
     (case materialize_map E dir q h of
        (h1, Inl err) \<Rightarrow> (h1, Inl err)
      | (h1, Inr _) \<Rightarrow> run_materialize E dir rest h1)"

text \<open>The \<^verbatim>\<open>catch\<close> around the second walk (lines 309 to 316).\<close>

definition relabel :: "string \<Rightarrow> string \<Rightarrow> git_error \<Rightarrow> git_error" where
  "relabel ref target err =
     (if code err = ReadObjectFail \<and> data_get err ''oid'' = Some target
        then GitError CommitNotFetchedError [(''ref'', Some ref), (''oid'', Some target)]
      else err)"

text \<open>
  Lines 240 to 318: the second walk inside its \<^verbatim>\<open>try\<close>, then the write of
  \<^verbatim>\<open>HEAD\<close>; \<open>target\<close> is the source's \<^verbatim>\<open>oid\<close>.
\<close>

definition rebuild ::
  "env \<Rightarrow> string \<Rightarrow> string \<Rightarrow> string \<Rightarrow> string \<Rightarrow> string \<Rightarrow> history
     \<Rightarrow> history \<times> (git_error + unit)" where
  "rebuild E dir gitdir ref target fullRef h =
     (case run_materialize E dir (walk_materialize E h dir gitdir ref) h of
        (h', Inl err) \<Rightarrow> (h', Inl (relabel ref target err))
      | (h', Inr _) \<Rightarrow> perform E h' (FsWrite (gitdir @ ''/HEAD'') (''ref: '' @ fullRef) None))"

text \<open>The function passed to \<^verbatim>\<open>GitIndexManager.acquire\<close> (lines 201 to 319).\<close>

definition locked ::
  "env \<Rightarrow> string \<Rightarrow> string \<Rightarrow> string \<Rightarrow> string \<Rightarrow> string \<Rightarrow> operation list \<Rightarrow> history
     \<Rightarrow> history \<times> (git_error + unit)" where
  "locked E dir gitdir ref target fullRef operations h =
     (let h1 = apply_unlinks E dir operations h in
      case apply_writes E gitdir operations h1 of
        Inl err \<Rightarrow> (h1, Inl err)
      | Inr _ \<Rightarrow>
          (let h2 = remove_entries E dir (index_paths E h1 gitdir) h1 in
           then_do (perform E h2 IndexClear)
             (\<lambda>h3 _. rebuild E dir gitdir ref target fullRef h3)))"

text \<open>
  Modelled from the spec: \<^verbatim>\<open>GitIndexManager.acquire\<close> is not among the sources; by
  section 4.6 it takes the exclusive lock, loads the index, invokes the function,
  persists the result, and releases the lock on every exit path. \<open>release\<close> is
  what it does once the function has returned or thrown.
\<close>

definition release ::
  "env \<Rightarrow> string \<Rightarrow> history \<times> (git_error + unit) \<Rightarrow> history \<times> (git_error + unit)" where
  "release E filepath m =
     (case m of
        (h, Inl err) \<Rightarrow> (fst (perform E h Release), Inl err)
      | (h, Inr _) \<Rightarrow>
          (case perform E h (IndexSave filepath) of
             (h', r) \<Rightarrow> (fst (perform E h' Release), r)))"

definition acquire ::
  "env \<Rightarrow> string \<Rightarrow> (history \<Rightarrow> history \<times> (git_error + unit)) \<Rightarrow> history
     \<Rightarrow> history \<times> (git_error + unit)" where
  "acquire E filepath fn h =
     then_do (perform E h (Acquire filepath)) (\<lambda>h1 _. release E filepath (fn h1))"

subsection \<open>The command\<close>

record checkout_args =
  arg_dir :: string
  arg_gitdir :: "string option"
  arg_remote :: "string option"
  arg_ref :: "string option"

datatype checkout_result = Conflicts "git_error list" | Done

text \<open>
  Lines 31 to 186: the parameter check, the target, the two ref names and the
  classification walk. The value is the source's \<^verbatim>\<open>ref\<close>, \<^verbatim>\<open>oid\<close>,
  \<^verbatim>\<open>fullRef\<close>, \<^verbatim>\<open>operations\<close> and \<^verbatim>\<open>errors\<close> when line 188 is reached.
\<close>

definition gitdir_of :: "env \<Rightarrow> checkout_args \<Rightarrow> string" where
  "gitdir_of E a = default_gitdir E (arg_dir a) (arg_gitdir a)"

definition remote_of :: "checkout_args \<Rightarrow> string" where
  "remote_of a = (case arg_remote a of None \<Rightarrow> ''origin'' | Some r \<Rightarrow> r)"

definition prepare ::
  "env \<Rightarrow> checkout_args \<Rightarrow> history
     \<Rightarrow> history \<times> (git_error + string \<times> string \<times> string \<times> operation list \<times> git_error list)"
  where
  "prepare E a h =
     (case arg_ref a of
        None \<Rightarrow>
          (h, Inl (GitError MissingRequiredParameterError
                     [(''function'', Some ''checkout''), (''parameter'', Some ''ref'')]))
      | Some ref \<Rightarrow>
          then_do (resolve_target E h (gitdir_of E a) (remote_of a) ref) (\<lambda>h1 target.
            case expand E h1 (gitdir_of E a) ref of
              Inl err \<Rightarrow> (h1, Inl err)
            | Inr fullRef \<Rightarrow>
                (case currentBranch E h1 (arg_dir a) (Some (gitdir_of E a)) (Some True) of
                   Inl err \<Rightarrow> (h1, Inl err)
                 | Inr currentRef \<Rightarrow>
                     (case run_classify ref
                             (walk_classify E h1 (arg_dir a) (gitdir_of E a) currentRef ref)
                             ([], []) of
                        Inl err \<Rightarrow> (h1, Inl err)
                      | Inr (operations, errors) \<Rightarrow>
                          (h1, Inr (ref, target, fullRef, operations, errors))))))"

text \<open>
  Lines 191 to 320, and the outer \<^verbatim>\<open>catch\<close> that sets \<^verbatim>\<open>caller\<close> on whatever
  was thrown (lines 321 to 324). A call that returns nothing yields \<open>Done\<close>.
\<close>

definition apply_plan ::
  "env \<Rightarrow> checkout_args \<Rightarrow> history
     \<Rightarrow> string \<times> string \<times> string \<times> operation list \<times> git_error list
     \<Rightarrow> history \<times> (git_error + checkout_result)" where
  "apply_plan E a h v =
     (case v of (ref, target, fullRef, operations, errors) \<Rightarrow>
        if length errors > 0 then (h, Inr (Conflicts errors))
        else
          then_do
            (acquire E (gitdir_of E a @ ''/index'')
               (locked E (arg_dir a) (gitdir_of E a) ref target fullRef operations)
               h)
            (\<lambda>h' _. (h', Inr Done)))"

definition checkout_body ::
  "env \<Rightarrow> checkout_args \<Rightarrow> history \<Rightarrow> history \<times> (git_error + checkout_result)" where
  "checkout_body E a h = then_do (prepare E a h) (\<lambda>h1 v. apply_plan E a h1 v)"

definition checkout ::
  "env \<Rightarrow> checkout_args \<Rightarrow> history \<Rightarrow> history \<times> (git_error + checkout_result)" where
  "checkout E a h =
     (case checkout_body E a h of
        (h', Inl err) \<Rightarrow> (h', Inl (err\<lparr>caller := Some ''git.checkout''\<rparr>))
      | (h', Inr v) \<Rightarrow> (h', Inr v))"

section \<open>Notions used in the statements\<close>

text \<open>The paths that the first loop removes.\<close>

fun unlink_paths :: "operation list \<Rightarrow> string list" where
  "unlink_paths [] = []"
| "unlink_paths (Unlink filepath # ops) = filepath # unlink_paths ops"
| "unlink_paths (Write filepath target m # ops) = unlink_paths ops"

text \<open>The conflicts that one step of the first walk records.\<close>

fun conflicts_of ::
  "string \<Rightarrow> (walker_entry \<times> walker_entry \<times> walker_entry \<times> walker_entry) walk_step
     \<Rightarrow> git_error list" where
  "conflicts_of ref (Visit q) = snd (classify_map ref q ([], []))"
| "conflicts_of ref (Throw err) = []"

text \<open>
  The three calls that set up a tracking branch: the two config keys, then the loose
  ref file with the oid and a newline.
\<close>

definition tracking_calls :: "string \<Rightarrow> string \<Rightarrow> string \<Rightarrow> string \<Rightarrow> call list" where
  "tracking_calls gitdir remote ref target =
     [ConfigSet gitdir (''branch.'' @ ref @ ''.remote'') remote,
      ConfigSet gitdir (''branch.'' @ ref @ ''.merge'') (''refs/heads/'' @ ref),
      FsWrite (gitdir @ ''/refs/heads/'' @ ref) (target @ newline) None]"

text \<open>The calls are made one after the other and none throws.\<close>

fun all_succeed :: "env \<Rightarrow> history \<Rightarrow> call list \<Rightarrow> bool" where
  "all_succeed E h [] = True"
| "all_succeed E h (c # cs) = (throws E h c = None \<and> all_succeed E (h @ [(c, None)]) cs)"

text \<open>The record that such calls leave.\<close>

definition succeeded :: "call list \<Rightarrow> history" where
  "succeeded cs = map (\<lambda>c. (c, None)) cs"

section \<open>Example inputs\<close>

text \<open>Entries as the walkers hand them out: a missing path carries no type, mode or oid.\<close>

definition absent_entry :: "string \<Rightarrow> walker_entry" where
  "absent_entry p =
     \<lparr>fullpath = p, exists = False, etype = None, mode = None, oid = None, content = []\<rparr>"

definition blob_entry :: "string \<Rightarrow> string \<Rightarrow> string \<Rightarrow> string \<Rightarrow> walker_entry" where
  "blob_entry p m h c =
     \<lparr>fullpath = p, exists = True, etype = Some ''blob'', mode = Some m, oid = Some h,
      content = c\<rparr>"

definition tree_entry :: "string \<Rightarrow> string \<Rightarrow> walker_entry" where
  "tree_entry p h =
     \<lparr>fullpath = p, exists = True, etype = Some ''tree'', mode = Some ''040000'', oid = Some h,
      content = []\<rparr>"

text \<open>Both walks begin at the root, which every source has.\<close>

definition root4 ::
  "(walker_entry \<times> walker_entry \<times> walker_entry \<times> walker_entry) walk_step" where
  "root4 = Visit (tree_entry ''.'' ''t0'', tree_entry ''.'' ''t0'', tree_entry ''.'' ''t0'',
                  tree_entry ''.'' ''t1'')"

definition root2 :: "(walker_entry \<times> walker_entry) walk_step" where
  "root2 = Visit (tree_entry ''.'' ''t1'', tree_entry ''.'' ''t0'')"

text \<open>
  A repository at \<^verbatim>\<open>/repo\<close> whose \<^verbatim>\<open>HEAD\<close> is \<^verbatim>\<open>ref: refs/heads/main\<close>, with
  the local branches \<^verbatim>\<open>main\<close> and \<^verbatim>\<open>dev\<close> and the remote branch
  \<^verbatim>\<open>origin/feature\<close>; no call fails, the trees and the index are empty, and the
  object store answers with a promise (no \<^verbatim>\<open>type\<close>, no \<^verbatim>\<open>object\<close>).
\<close>

definition no_ref :: "string \<Rightarrow> git_error" where
  "no_ref ref = GitError (OtherCode ''ResolveRefError'') [(''ref'', Some ref)]"

definition repo :: env where
  "repo =
     \<lparr>path_join = (\<lambda>a b. a @ ''/'' @ b),
      throws = (\<lambda>h c. None),
      resolve = (\<lambda>h gitdir ref depth.
        if ref = ''HEAD'' then (if depth = Some 2 then Inr ''refs/heads/main'' else Inr ''c0c0'')
        else if ref = ''main'' then Inr ''c0c0''
        else if ref = ''dev'' then Inr ''c1c1''
        else if ref = ''origin/feature'' then Inr ''c2c2''
        else Inl (no_ref ref)),
      expand = (\<lambda>h gitdir ref. Inr (''refs/heads/'' @ ref)),
      abbrev = (\<lambda>h gitdir ref. drop 11 ref),
      lstat = (\<lambda>h filepath. Inr \<lparr>stat_mode = 33188, stat_rest = []\<rparr>),
      readObject = (\<lambda>h gitdir target. Inr (None, None)),
      walk_classify = (\<lambda>h dir gitdir currentRef ref. [root4]),
      walk_materialize = (\<lambda>h dir gitdir ref. [root2]),
      index_paths = (\<lambda>h gitdir. [])\<rparr>"

definition args_for :: "string \<Rightarrow> checkout_args" where
  "args_for ref = \<lparr>arg_dir = ''/repo'', arg_gitdir = None, arg_remote = None, arg_ref = Some ref\<rparr>"

text \<open>
  \<^verbatim>\<open>a.txt\<close> was edited in the working directory and differently in the new tree.
\<close>

definition edited_both :: "walker_entry \<times> walker_entry \<times> walker_entry \<times> walker_entry" where
  "edited_both =
     (blob_entry ''a.txt'' ''100644'' ''b3'' ''mine'', blob_entry ''a.txt'' ''100644'' ''b1'' ''old'',
      blob_entry ''a.txt'' ''100644'' ''b1'' ''old'', blob_entry ''a.txt'' ''100644'' ''b2'' ''new'')"

text \<open>\<^verbatim>\<open>b.txt\<close> is new in the new tree and missing everywhere else.\<close>

definition added_upstream :: "walker_entry \<times> walker_entry \<times> walker_entry \<times> walker_entry" where
  "added_upstream =
     (absent_entry ''b.txt'', absent_entry ''b.txt'', absent_entry ''b.txt'',
      blob_entry ''b.txt'' ''100644'' ''b4'' ''new'')"

text \<open>\<^verbatim>\<open>c.txt\<close> is unchanged in the working directory and gone from the new tree.\<close>

definition deleted_upstream :: "walker_entry \<times> walker_entry \<times> walker_entry \<times> walker_entry" where
  "deleted_upstream =
     (blob_entry ''c.txt'' ''100644'' ''b5'' ''old'', blob_entry ''c.txt'' ''100644'' ''b5'' ''old'',
      blob_entry ''c.txt'' ''100644'' ''b5'' ''old'', absent_entry ''c.txt'')"

text \<open>Every removal fails with a permission error.\<close>

definition eperm :: "string \<Rightarrow> git_error" where
  "eperm p = GitError (OtherCode ''EPERM'') [(''path'', Some p)]"

definition rm_fails :: "history \<Rightarrow> call \<Rightarrow> git_error option" where
  "rm_fails h c = (case c of FsRm p \<Rightarrow> Some (eperm p) | _ \<Rightarrow> None)"

text \<open>The example repository with the conflicting edit of \<^verbatim>\<open>a.txt\<close>.\<close>

definition repo_conflict :: env where
  "repo_conflict =
     repo\<lparr>walk_classify := (\<lambda>h dir gitdir currentRef ref. [root4, Visit edited_both])\<rparr>"

text \<open>
  A file system whose \<^verbatim>\<open>lstat\<close> reports a regular executable file
  (\<^verbatim>\<open>0o100755\<close>, which is 33261).
\<close>

definition exec_stat :: stats where
  "exec_stat = \<lparr>stat_mode = 33261, stat_rest = []\<rparr>"

definition repo_exec :: env where
  "repo_exec = repo\<lparr>lstat := (\<lambda>h filepath. Inr exec_stat)\<rparr>"

text \<open>
  The second walk cannot read the object \<open>h\<close>: the walker throws
  \<^verbatim>\<open>ReadObjectFail\<close> with that oid.
\<close>

definition unfetched :: "string \<Rightarrow> git_error" where
  "unfetched h = GitError ReadObjectFail [(''oid'', Some h)]"

definition repo_unfetched :: "string \<Rightarrow> env" where
  "repo_unfetched h = repo\<lparr>walk_materialize := (\<lambda>hist dir gitdir ref. [Throw (unfetched h)])\<rparr>"

text \<open>
  The example repository with one tracked file \<^verbatim>\<open>a.txt\<close> that is the same in the
  working directory, the index and both trees.
\<close>

definition repo_tracked :: env where
  "repo_tracked = repo
     \<lparr>walk_classify := (\<lambda>h dir gitdir currentRef ref.
        [root4,
         Visit (blob_entry ''a.txt'' ''100644'' ''b1'' ''old'', blob_entry ''a.txt'' ''100644'' ''b1'' ''old'',
                blob_entry ''a.txt'' ''100644'' ''b1'' ''old'', blob_entry ''a.txt'' ''100644'' ''b1'' ''old'')]),
      walk_materialize := (\<lambda>h dir gitdir ref.
        [root2, Visit (blob_entry ''a.txt'' ''100644'' ''b1'' ''old'', absent_entry ''a.txt'')]),
      index_paths := (\<lambda>h gitdir. [''a.txt''])\<rparr>"

text \<open>The example repository when the new tree adds \<^verbatim>\<open>b.txt\<close>.\<close>

definition repo_added :: env where
  "repo_added =
     repo\<lparr>walk_classify := (\<lambda>h dir gitdir currentRef ref. [root4, Visit added_upstream])\<rparr>"

section \<open>The history only grows\<close>

text \<open>
  Every stage of the command appends to the record of calls and changes nothing that
  is already recorded.
\<close>

lemma perform_fst: "fst (perform E h c) = h @ [(c, throws E h c)]"
  by (simp add: perform_def split: option.splits)

lemma perform_ok: "throws E h c = None \<Longrightarrow> perform E h c = (h @ [(c, None)], Inr ())"
  by (simp add: perform_def)

lemma perform_prefix: "prefix h (fst (perform E h c))"
  by (simp add: perform_fst)

lemma then_do_prefix:
  assumes "prefix h (fst m)" and "\<And>h1 x. prefix h1 (fst (f h1 x))"
  shows "prefix h (fst (then_do m f))"
proof (cases m)
  case (Pair h1 r)
  show ?thesis
  proof (cases r)
    case (Inl err)
    with Pair assms(1) show ?thesis by (simp add: then_do_def)
  next
    case (Inr x)
    have "prefix h1 (fst (f h1 x))" by (rule assms(2))
    with Pair Inr assms(1) show ?thesis
      by (auto simp: then_do_def intro: prefix_order.trans)
  qed
qed

lemma apply_unlinks_prefix: "prefix h (apply_unlinks E dir ops h)"
proof (induction ops arbitrary: h)
  case Nil
  show ?case by simp
next
  case (Cons op ops)
  show ?case
  proof (cases op)
    case (Unlink p)
    have "prefix h (fst (perform E h (FsRm (dir @ ''/'' @ p))))" by (rule perform_prefix)
    also have "prefix \<dots> (apply_unlinks E dir ops (fst (perform E h (FsRm (dir @ ''/'' @ p)))))"
      by (rule Cons.IH)
    finally show ?thesis using Unlink by simp
  next
    case (Write p t m)
    then show ?thesis using Cons.IH by simp
  qed
qed

lemma remove_entries_prefix: "prefix h (remove_entries E dir ps h)"
proof (induction ps arbitrary: h)
  case Nil
  show ?case by simp
next
  case (Cons p ps)
  have "prefix h (fst (perform E h (FsRm (path_join E dir p))))" by (rule perform_prefix)
  also have "prefix \<dots> (remove_entries E dir ps (fst (perform E h (FsRm (path_join E dir p)))))"
    by (rule Cons.IH)
  finally show ?case by simp
qed

lemma write_blob_prefix: "prefix h (fst (write_blob E h filepath head))"
  by (simp add: write_blob_def perform_prefix)

lemma record_blob_prefix: "prefix h (fst (record_blob E head filepath h))"
  by (simp add: record_blob_def perform_prefix split: sum.splits)

lemma materialize_map_prefix: "prefix h (fst (materialize_map E dir q h))"
proof (cases q)
  case (Pair head workdir)
  have "prefix h (fst (then_do (write_blob E h fp head) (\<lambda>h1 _. record_blob E head fp h1)))" for fp
    by (rule then_do_prefix) (simp_all add: write_blob_prefix record_blob_prefix)
  with Pair show ?thesis
    by (simp add: materialize_map_def Let_def perform_prefix)
qed

lemma run_materialize_prefix: "prefix h (fst (run_materialize E dir steps h))"
proof (induction steps arbitrary: h)
  case Nil
  show ?case by simp
next
  case (Cons s steps)
  show ?case
  proof (cases s)
    case (Throw err)
    then show ?thesis by simp
  next
    case (Visit q)
    obtain h1 r where m: "materialize_map E dir q h = (h1, r)" by (cases "materialize_map E dir q h")
    have p1: "prefix h h1" using materialize_map_prefix [of h E dir q] m by simp
    show ?thesis
    proof (cases r)
      case (Inl err)
      with Visit m p1 show ?thesis by simp
    next
      case (Inr u)
      have "prefix h1 (fst (run_materialize E dir steps h1))" by (rule Cons.IH)
      with Visit m p1 Inr show ?thesis by (auto intro: prefix_order.trans)
    qed
  qed
qed

lemma rebuild_prefix: "prefix h (fst (rebuild E dir gitdir ref target fullRef h))"
proof -
  obtain h' r where m: "run_materialize E dir (walk_materialize E h dir gitdir ref) h = (h', r)"
    by (cases "run_materialize E dir (walk_materialize E h dir gitdir ref) h")
  have p: "prefix h h'"
    using run_materialize_prefix [of h E dir "walk_materialize E h dir gitdir ref"] m by simp
  have q: "prefix h' (fst (perform E h' c))" for c by (rule perform_prefix)
  show ?thesis using m p q by (cases r) (auto simp: rebuild_def intro: prefix_order.trans)
qed

lemma locked_prefix: "prefix h (fst (locked E dir gitdir ref target fullRef ops h))"
proof -
  let ?h1 = "apply_unlinks E dir ops h"
  let ?h2 = "remove_entries E dir (index_paths E ?h1 gitdir) ?h1"
  have a: "prefix h ?h1" by (rule apply_unlinks_prefix)
  have b: "prefix ?h1 ?h2" by (rule remove_entries_prefix)
  have c: "prefix ?h2 (fst (then_do (perform E ?h2 IndexClear)
             (\<lambda>h3 _. rebuild E dir gitdir ref target fullRef h3)))"
    by (rule then_do_prefix) (simp_all add: perform_prefix rebuild_prefix)
  show ?thesis
  proof (cases "apply_writes E gitdir ops ?h1")
    case (Inl err)
    with a show ?thesis by (simp add: locked_def Let_def)
  next
    case (Inr u)
    from a b c have "prefix h (fst (then_do (perform E ?h2 IndexClear)
             (\<lambda>h3 _. rebuild E dir gitdir ref target fullRef h3)))"
      by (blast intro: prefix_order.trans)
    with Inr show ?thesis by (simp add: locked_def Let_def)
  qed
qed

lemma release_prefix: "prefix (fst m) (fst (release E filepath m))"
proof (cases m)
  case (Pair h r)
  have q: "prefix h (fst (perform E h c))" for c by (rule perform_prefix)
  have q2: "prefix h (fst (perform E (fst (perform E h c)) c'))" for c c'
    using perform_prefix [of h E c] perform_prefix [of "fst (perform E h c)" E c']
    by (rule prefix_order.trans)
  show ?thesis
  proof (cases r)
    case (Inl err)
    with Pair q [of Release] show ?thesis by (simp add: release_def)
  next
    case (Inr u)
    obtain h3 r3 where s: "perform E h (IndexSave filepath) = (h3, r3)"
      by (cases "perform E h (IndexSave filepath)")
    with q2 [of "IndexSave filepath" Release] have "prefix h (fst (perform E h3 Release))" by simp
    with Pair Inr s show ?thesis by (simp add: release_def)
  qed
qed

lemma acquire_prefix:
  assumes "\<And>h1. prefix h1 (fst (fn h1))"
  shows "prefix h (fst (acquire E filepath fn h))"
  unfolding acquire_def
proof (rule then_do_prefix)
  show "prefix h (fst (perform E h (Acquire filepath)))" by (rule perform_prefix)
next
  fix h1 :: history and x :: unit
  have "prefix h1 (fst (fn h1))" by (rule assms)
  also have "prefix \<dots> (fst (release E filepath (fn h1)))" by (rule release_prefix)
  finally show "prefix h1 (fst (release E filepath (fn h1)))" .
qed

lemma apply_plan_prefix: "prefix h (fst (apply_plan E a h v))"
proof -
  obtain ref target fullRef operations errors where v: "v = (ref, target, fullRef, operations, errors)"
    by (cases v)
  have "prefix h (fst (then_do
             (acquire E (gitdir_of E a @ ''/index'')
                (locked E (arg_dir a) (gitdir_of E a) ref target fullRef operations) h)
             (\<lambda>h2 _. (h2, Inr Done))))"
    by (rule then_do_prefix) (simp_all add: acquire_prefix locked_prefix)
  with v show ?thesis by (simp add: apply_plan_def)
qed

lemma checkout_fst: "fst (checkout E a h) = fst (checkout_body E a h)"
  by (simp add: checkout_def split: prod.splits sum.splits)

lemma checkout_prefix: "prefix (fst (prepare E a h)) (fst (checkout E a h))"
proof (cases "prepare E a h")
  case (Pair h1 r)
  show ?thesis
  proof (cases r)
    case (Inl err)
    with Pair show ?thesis by (simp add: checkout_fst checkout_body_def then_do_def)
  next
    case (Inr v)
    with Pair show ?thesis
      by (simp add: checkout_fst checkout_body_def then_do_def apply_plan_prefix)
  qed
qed

lemma prepare_success:
  assumes "prepare E a h = (h1, Inr (ref, target, fullRef, operations, errors))"
  shows "arg_ref a = Some ref
    \<and> resolve_target E h (gitdir_of E a) (remote_of a) ref = (h1, Inr target)"
  using assms
  by (auto simp: prepare_def then_do_def split: option.splits sum.splits prod.splits)

lemma prepare_fst:
  assumes "arg_ref a = Some ref"
    and "resolve_target E h (gitdir_of E a) (remote_of a) ref = (h1, Inr target)"
  shows "fst (prepare E a h) = h1"
  using assms
  by (simp add: prepare_def then_do_def split: option.splits sum.splits prod.splits)

section \<open>The classification of one path\<close>

text \<open>
  C1, as the code has it. On every call the callback realises the outcome of
  \<open>code_table\<close>: the table of the specification for every path other than the root
  whose entry in the new tree is neither a directory nor a submodule, except that a
  path present in the old tree and absent from the new one whose file is missing from
  the working directory queues nothing; the root, and every path whose new entry is a
  directory or a submodule, queues nothing and records no error.
\<close>

theorem classify_map_follows_code_table:
  "realises (code_table head next workdir) workdir next p
     (classify_map ref (workdir, stage, head, next) p)"
  by (cases p) (auto simp: realises_def code_table_def classify_map_def conflict_def GitError_def)

text \<open>
  C1 as stated fails. A directory \<^verbatim>\<open>lib\<close> that only the new tree has: the table
  asks for a write, the callback returns at line 97. A file \<^verbatim>\<open>a.txt\<close> of the old
  tree, absent from the new tree and from the working directory: its hash (none)
  differs from the old oid, the table asks for a conflict, the callback does nothing
  (line 109).
\<close>

theorem classify_map_spec_table_counterexample:
  "\<not> realises (spec_table (absent_entry ''lib'') (tree_entry ''lib'' ''t1'') (absent_entry ''lib''))
       (absent_entry ''lib'') (tree_entry ''lib'' ''t1'') ([], [])
       (classify_map ''dev''
          (absent_entry ''lib'', absent_entry ''lib'', absent_entry ''lib'', tree_entry ''lib'' ''t1'')
          ([], []))
   \<and> \<not> realises
       (spec_table (blob_entry ''a.txt'' ''100644'' ''h1'' ''x'') (absent_entry ''a.txt'')
          (absent_entry ''a.txt''))
       (absent_entry ''a.txt'') (absent_entry ''a.txt'') ([], [])
       (classify_map ''dev''
          (absent_entry ''a.txt'', absent_entry ''a.txt'',
           blob_entry ''a.txt'' ''100644'' ''h1'' ''x'', absent_entry ''a.txt'')
          ([], []))"
  by (simp add: realises_def spec_table_def classify_map_def absent_entry_def tree_entry_def
      blob_entry_def)

text \<open>
  C3. For a path present in the old tree and absent from the new one (so that its new
  entry has no type, and the path is not the root): nothing is queued when the file is
  missing from the working directory; an \<^verbatim>\<open>unlink\<close> is queued when its hash is the
  old oid; otherwise a conflict is recorded and nothing is queued.
\<close>

theorem deleted_path_classification:
  assumes "exists head" and "\<not> exists next" and "fullpath workdir \<noteq> ''.''"
    and "etype next \<noteq> Some ''tree''" and "etype next \<noteq> Some ''commit''"
  shows "classify_map ref (workdir, stage, head, next) (operations, errors) =
     (if \<not> exists workdir then (operations, errors)
      else if oid workdir = oid head then (operations @ [Unlink (fullpath workdir)], errors)
      else (operations, errors @ [conflict (deleted_msg (fullpath workdir) ref)]))"
  using assms by (simp add: classify_map_def)

theorem deleted_path_classification_witness:
  "exists (blob_entry ''a.txt'' ''100644'' ''h1'' ''x'') \<and> \<not> exists (absent_entry ''a.txt'')
   \<and> fullpath (blob_entry ''a.txt'' ''100644'' ''h1'' ''x'') \<noteq> ''.''
   \<and> etype (absent_entry ''a.txt'') \<noteq> Some ''tree''
   \<and> etype (absent_entry ''a.txt'') \<noteq> Some ''commit''
   \<and> classify_map ''dev''
     (blob_entry ''a.txt'' ''100644'' ''h1'' ''x'', absent_entry ''a.txt'',
      blob_entry ''a.txt'' ''100644'' ''h1'' ''x'', absent_entry ''a.txt'') ([], [])
     = ([Unlink ''a.txt''], [])
   \<and> classify_map ''dev''
     (blob_entry ''a.txt'' ''100644'' ''h2'' ''y'', absent_entry ''a.txt'',
      blob_entry ''a.txt'' ''100644'' ''h1'' ''x'', absent_entry ''a.txt'') ([], [])
     = ([], [conflict (deleted_msg ''a.txt'' ''dev'')])
   \<and> classify_map ''dev''
     (absent_entry ''a.txt'', absent_entry ''a.txt'',
      blob_entry ''a.txt'' ''100644'' ''h1'' ''x'', absent_entry ''a.txt'') ([], [])
     = ([], [])"
  using deleted_path_classification [of "blob_entry ''a.txt'' ''100644'' ''h1'' ''x''"
      "absent_entry ''a.txt''" "blob_entry ''a.txt'' ''100644'' ''h1'' ''x''" "''dev''"
      "absent_entry ''a.txt''" "[]" "[]"]
    deleted_path_classification [of "blob_entry ''a.txt'' ''100644'' ''h1'' ''x''"
      "absent_entry ''a.txt''" "blob_entry ''a.txt'' ''100644'' ''h2'' ''y''" "''dev''"
      "absent_entry ''a.txt''" "[]" "[]"]
    deleted_path_classification [of "blob_entry ''a.txt'' ''100644'' ''h1'' ''x''"
      "absent_entry ''a.txt''" "absent_entry ''a.txt''" "''dev''"
      "absent_entry ''a.txt''" "[]" "[]"]
  by (simp add: absent_entry_def blob_entry_def)

section \<open>The name of the current branch\<close>

text \<open>
  C9. When the ref manager resolves \<^verbatim>\<open>HEAD\<close> at depth 2 to
  \<^verbatim>\<open>refs/heads/main\<close> (a symbolic \<^verbatim>\<open>HEAD\<close>) and abbreviates that name to
  \<^verbatim>\<open>main\<close>, \<^verbatim>\<open>currentBranch\<close> returns \<^verbatim>\<open>refs/heads/main\<close> with
  \<^verbatim>\<open>fullname: true\<close>, and \<^verbatim>\<open>main\<close> with \<^verbatim>\<open>fullname: false\<close> or without
  \<^verbatim>\<open>fullname\<close>.
\<close>

theorem currentBranch_names:
  assumes "resolve E h (default_gitdir E dir gitdir) ''HEAD'' (Some 2) = Inr ''refs/heads/main''"
    and "abbrev E h (default_gitdir E dir gitdir) ''refs/heads/main'' = ''main''"
  shows "currentBranch E h dir gitdir (Some True) = Inr ''refs/heads/main''
     \<and> currentBranch E h dir gitdir (Some False) = Inr ''main''
     \<and> currentBranch E h dir gitdir None = Inr ''main''"
  using assms by (simp add: currentBranch_def)

theorem currentBranch_names_witness:
  "resolve repo [] (default_gitdir repo ''/repo'' None) ''HEAD'' (Some 2) = Inr ''refs/heads/main''
   \<and> abbrev repo [] (default_gitdir repo ''/repo'' None) ''refs/heads/main'' = ''main''
   \<and> currentBranch repo [] ''/repo'' None (Some True) = Inr ''refs/heads/main''
   \<and> currentBranch repo [] ''/repo'' None (Some False) = Inr ''main''"
  using currentBranch_names [of repo "[]" "''/repo''" None]
  by (simp add: repo_def)

section \<open>Removals that fail\<close>

lemma apply_unlinks_calls:
  "\<exists>rest. apply_unlinks E dir ops h = h @ rest
     \<and> map fst rest = map (\<lambda>p. FsRm (dir @ ''/'' @ p)) (unlink_paths ops)"
proof (induction ops arbitrary: h)
  case Nil
  show ?case by simp
next
  case (Cons op ops)
  show ?case
  proof (cases op)
    case (Unlink p)
    let ?h' = "h @ [(FsRm (dir @ ''/'' @ p), throws E h (FsRm (dir @ ''/'' @ p)))]"
    from Cons.IH [of ?h'] obtain rest where
      r: "apply_unlinks E dir ops ?h' = ?h' @ rest"
         "map fst rest = map (\<lambda>p. FsRm (dir @ ''/'' @ p)) (unlink_paths ops)"
      by blast
    have "apply_unlinks E dir (op # ops) h
            = h @ ((FsRm (dir @ ''/'' @ p), throws E h (FsRm (dir @ ''/'' @ p))) # rest)"
      using Unlink r(1) by (simp add: perform_fst)
    moreover have "map fst ((FsRm (dir @ ''/'' @ p), throws E h (FsRm (dir @ ''/'' @ p))) # rest)
            = map (\<lambda>p. FsRm (dir @ ''/'' @ p)) (unlink_paths (op # ops))"
      using Unlink r(2) by simp
    ultimately show ?thesis by blast
  next
    case (Write p t m)
    then show ?thesis using Cons.IH [of h] by simp
  qed
qed

lemma remove_entries_calls:
  "\<exists>rest. remove_entries E dir ps h = h @ rest
     \<and> map fst rest = map (\<lambda>p. FsRm (path_join E dir p)) ps"
proof (induction ps arbitrary: h)
  case Nil
  show ?case by simp
next
  case (Cons p ps)
  let ?h' = "h @ [(FsRm (path_join E dir p), throws E h (FsRm (path_join E dir p)))]"
  from Cons.IH [of ?h'] obtain rest where
    r: "remove_entries E dir ps ?h' = ?h' @ rest"
       "map fst rest = map (\<lambda>p. FsRm (path_join E dir p)) ps"
    by blast
  have "remove_entries E dir (p # ps) h
          = h @ ((FsRm (path_join E dir p), throws E h (FsRm (path_join E dir p))) # rest)"
    using r(1) by (simp add: perform_fst)
  moreover have "map fst ((FsRm (path_join E dir p), throws E h (FsRm (path_join E dir p))) # rest)
          = map (\<lambda>p. FsRm (path_join E dir p)) (p # ps)"
    using r(2) by simp
  ultimately show ?case by blast
qed

text \<open>
  C10. Whatever \<^verbatim>\<open>fs.rm\<close> does, the first loop calls it for every queued
  \<^verbatim>\<open>unlink\<close>, in order, and the third loop calls it for every entry of the index,
  and both loops return; a removal that throws leaves nothing but its record, and the
  loop goes on with the remaining operations or entries. Neither loop has an error to
  return.
\<close>

theorem rm_failures_swallowed:
  "map fst (drop (length h) (apply_unlinks E dir ops h))
     = map (\<lambda>p. FsRm (dir @ ''/'' @ p)) (unlink_paths ops)
   \<and> map fst (drop (length h) (remove_entries E dir ps h))
     = map (\<lambda>p. FsRm (path_join E dir p)) ps
   \<and> (throws E h (FsRm (dir @ ''/'' @ p)) = Some err \<longrightarrow>
        apply_unlinks E dir (Unlink p # ops) h
          = apply_unlinks E dir ops (h @ [(FsRm (dir @ ''/'' @ p), Some err)]))
   \<and> (throws E h (FsRm (path_join E dir p)) = Some err \<longrightarrow>
        remove_entries E dir (p # ps) h
          = remove_entries E dir ps (h @ [(FsRm (path_join E dir p), Some err)]))"
proof -
  obtain r1 where "apply_unlinks E dir ops h = h @ r1"
    and "map fst r1 = map (\<lambda>p. FsRm (dir @ ''/'' @ p)) (unlink_paths ops)"
    using apply_unlinks_calls by blast
  then have a: "map fst (drop (length h) (apply_unlinks E dir ops h))
     = map (\<lambda>p. FsRm (dir @ ''/'' @ p)) (unlink_paths ops)" by simp
  obtain r2 where "remove_entries E dir ps h = h @ r2"
    and "map fst r2 = map (\<lambda>p. FsRm (path_join E dir p)) ps"
    using remove_entries_calls by blast
  then have b: "map fst (drop (length h) (remove_entries E dir ps h))
     = map (\<lambda>p. FsRm (path_join E dir p)) ps" by simp
  show ?thesis using a b by (simp add: perform_fst)
qed

theorem rm_failures_swallowed_witness:
  "throws (repo\<lparr>throws := rm_fails\<rparr>) [] (FsRm (''/repo'' @ ''/'' @ ''c.txt''))
     = Some (eperm ''/repo/c.txt'')
   \<and> apply_unlinks (repo\<lparr>throws := rm_fails\<rparr>) ''/repo'' [Unlink ''c.txt'', Unlink ''d.txt''] []
       = [(FsRm ''/repo/c.txt'', Some (eperm ''/repo/c.txt'')),
          (FsRm ''/repo/d.txt'', Some (eperm ''/repo/d.txt''))]
   \<and> remove_entries (repo\<lparr>throws := rm_fails\<rparr>) ''/repo'' [''c.txt'', ''d.txt''] []
       = [(FsRm ''/repo/c.txt'', Some (eperm ''/repo/c.txt'')),
          (FsRm ''/repo/d.txt'', Some (eperm ''/repo/d.txt''))]"
  using rm_failures_swallowed [of "[]" "repo\<lparr>throws := rm_fails\<rparr>" "''/repo''"
      "[Unlink ''d.txt'']" "[''d.txt'']" "''c.txt''" "eperm ''/repo/c.txt''"]
  by (simp add: repo_def rm_fails_def perform_def)

text \<open>
  The whole command when every removal fails: \<^verbatim>\<open>c.txt\<close> is queued for removal
  and is an entry of the index; both removals throw, and the checkout of \<^verbatim>\<open>dev\<close>
  still runs to its end.
\<close>

lemma checkout_rm_fails:
  "checkout
     (repo\<lparr>throws := rm_fails,
           walk_classify := (\<lambda>h dir gitdir currentRef ref. [root4, Visit deleted_upstream]),
           index_paths := (\<lambda>h gitdir. [''c.txt''])\<rparr>)
     (args_for ''dev'') []
   = ([(Acquire ''/repo/.git/index'', None),
       (FsRm ''/repo/c.txt'', Some (eperm ''/repo/c.txt'')),
       (FsRm ''/repo/c.txt'', Some (eperm ''/repo/c.txt'')),
       (IndexClear, None),
       (FsWrite ''/repo/.git/HEAD'' ''ref: refs/heads/dev'' None, None),
       (IndexSave ''/repo/.git/index'', None), (Release, None)], Inr Done)"
  by (simp add: checkout_def checkout_body_def prepare_def then_do_def resolve_target_def
      gitdir_of_def default_gitdir_def remote_of_def currentBranch_def classify_map_def
      blob_entry_def absent_entry_def apply_plan_def acquire_def release_def locked_def
      rebuild_def perform_def Let_def args_for_def repo_def rm_fails_def deleted_upstream_def
      root4_def root2_def tree_entry_def materialize_map_def)

section \<open>Conflicts abort before anything is applied\<close>

lemma classify_map_appends:
  "classify_map ref q (ops, errs)
     = (ops @ fst (classify_map ref q ([], [])), errs @ snd (classify_map ref q ([], [])))"
  by (cases q) (simp add: classify_map_def)

lemma run_classify_accumulates:
  "run_classify ref steps (ops, errs) = Inr (ops', errs')
     \<Longrightarrow> errs' = errs @ concat (map (conflicts_of ref) steps)"
proof (induction steps arbitrary: ops errs)
  case Nil
  then show ?case by simp
next
  case (Cons s steps)
  show ?case
  proof (cases s)
    case (Throw err)
    with Cons.prems show ?thesis by simp
  next
    case (Visit q)
    let ?o = "fst (classify_map ref q ([], []))" and ?e = "snd (classify_map ref q ([], []))"
    have "run_classify ref steps (ops @ ?o, errs @ ?e) = Inr (ops', errs')"
      using Cons.prems Visit classify_map_appends [of ref q ops errs] by simp
    then have "errs' = (errs @ ?e) @ concat (map (conflicts_of ref) steps)"
      by (rule Cons.IH)
    with Visit show ?thesis by simp
  qed
qed

lemma resolve_target_tracking:
  assumes "resolve E h gitdir ref None = Inl e0"
    and "resolve E h gitdir (remote @ ''/'' @ ref) None = Inr target"
    and "all_succeed E h (tracking_calls gitdir remote ref target)"
  shows "resolve_target E h gitdir remote ref
     = (h @ succeeded (tracking_calls gitdir remote ref target), Inr target)"
  using assms
  by (simp add: resolve_target_def Let_def then_do_def perform_ok tracking_calls_def succeeded_def)

lemma resolve_target_history:
  assumes "resolve_target E h gitdir remote ref = (h1, Inr target)"
  shows "h1 = (case resolve E h gitdir ref None of
            Inr _ \<Rightarrow> h
          | Inl _ \<Rightarrow> h @ succeeded (tracking_calls gitdir remote ref target))"
  using assms
  by (auto simp: resolve_target_def Let_def then_do_def perform_def tracking_calls_def succeeded_def
      split: sum.splits option.splits)

lemma prepare_classified:
  assumes "prepare E a h = (h1, Inr (ref, target, fullRef, operations, errors))"
  shows "\<exists>currentRef.
      currentBranch E h1 (arg_dir a) (Some (gitdir_of E a)) (Some True) = Inr currentRef
    \<and> run_classify ref (walk_classify E h1 (arg_dir a) (gitdir_of E a) currentRef ref) ([], [])
        = Inr (operations, errors)"
  using assms
  by (auto simp: prepare_def then_do_def split: option.splits sum.splits prod.splits)

lemma checkout_conflicts:
  assumes "prepare E a h = (h1, Inr (ref, target, fullRef, operations, errors))"
    and "errors \<noteq> []"
  shows "checkout E a h = (h1, Inr (Conflicts errors))"
  using assms by (simp add: checkout_def checkout_body_def then_do_def apply_plan_def)

text \<open>
  C2, as the code has it. When the classification walk ends with a non-empty
  \<^verbatim>\<open>errors\<close> list, checkout throws nothing and returns that list, which holds
  the conflicts of all visited paths in the order of the walk; the lock is not
  acquired, and no call is made after the walk. The only calls made at all are those
  that resolving the target makes: none when \<^verbatim>\<open>ref\<close> resolves locally, and the
  two config writes and the write of \<^verbatim>\<open>refs/heads/<ref>\<close> when the branch is
  created from the remote.
\<close>

theorem conflicts_returned_before_apply:
  assumes "prepare E a h = (h1, Inr (ref, target, fullRef, operations, errors))"
    and "errors \<noteq> []"
  shows "checkout E a h = (h1, Inr (Conflicts errors))
     \<and> h1 = (case resolve E h (gitdir_of E a) ref None of
              Inr _ \<Rightarrow> h
            | Inl _ \<Rightarrow> h @ succeeded (tracking_calls (gitdir_of E a) (remote_of a) ref target))
     \<and> (\<exists>currentRef.
          currentBranch E h1 (arg_dir a) (Some (gitdir_of E a)) (Some True) = Inr currentRef
          \<and> errors = concat (map (conflicts_of ref)
               (walk_classify E h1 (arg_dir a) (gitdir_of E a) currentRef ref)))"
proof -
  have a: "checkout E a h = (h1, Inr (Conflicts errors))"
    using assms by (rule checkout_conflicts)
  have "resolve_target E h (gitdir_of E a) (remote_of a) ref = (h1, Inr target)"
    using prepare_success [OF assms(1)] by simp
  then have b: "h1 = (case resolve E h (gitdir_of E a) ref None of
              Inr _ \<Rightarrow> h
            | Inl _ \<Rightarrow> h @ succeeded (tracking_calls (gitdir_of E a) (remote_of a) ref target))"
    by (rule resolve_target_history)
  obtain currentRef where
    c: "currentBranch E h1 (arg_dir a) (Some (gitdir_of E a)) (Some True) = Inr currentRef"
    and r: "run_classify ref (walk_classify E h1 (arg_dir a) (gitdir_of E a) currentRef ref) ([], [])
        = Inr (operations, errors)"
    using prepare_classified [OF assms(1)] by blast
  have "errors = [] @ concat (map (conflicts_of ref)
               (walk_classify E h1 (arg_dir a) (gitdir_of E a) currentRef ref))"
    using r by (rule run_classify_accumulates)
  with c have "\<exists>currentRef.
          currentBranch E h1 (arg_dir a) (Some (gitdir_of E a)) (Some True) = Inr currentRef
          \<and> errors = concat (map (conflicts_of ref)
               (walk_classify E h1 (arg_dir a) (gitdir_of E a) currentRef ref))"
    by auto
  with a b show ?thesis by blast
qed

lemmas run_defs = checkout_def checkout_body_def prepare_def then_do_def
      resolve_target_def gitdir_of_def default_gitdir_def remote_of_def currentBranch_def
      classify_map_def blob_entry_def absent_entry_def apply_plan_def
      acquire_def release_def locked_def rebuild_def perform_def Let_def args_for_def
      root4_def root2_def tree_entry_def materialize_map_def

lemma prepare_repo_conflict:
  "prepare repo_conflict (args_for ''feature'') []
     = (succeeded (tracking_calls ''/repo/.git'' ''origin'' ''feature'' ''c2c2''),
        Inr (''feature'', ''c2c2'', ''refs/heads/feature'', [],
             [conflict (changed_msg ''a.txt'' ''feature'')]))"
  by (simp add: run_defs repo_conflict_def repo_def edited_both_def succeeded_def
      tracking_calls_def)

lemma prepare_repo_conflict_local:
  "prepare repo_conflict (args_for ''dev'') []
     = ([], Inr (''dev'', ''c1c1'', ''refs/heads/dev'', [],
                 [conflict (changed_msg ''a.txt'' ''dev'')]))"
  by (simp add: run_defs repo_conflict_def repo_def edited_both_def)

theorem conflicts_returned_before_apply_witness:
  "prepare repo_conflict (args_for ''feature'') []
     = (succeeded (tracking_calls ''/repo/.git'' ''origin'' ''feature'' ''c2c2''),
        Inr (''feature'', ''c2c2'', ''refs/heads/feature'', [],
             [conflict (changed_msg ''a.txt'' ''feature'')]))
   \<and> [conflict (changed_msg ''a.txt'' ''feature'')] \<noteq> []
   \<and> checkout repo_conflict (args_for ''feature'') []
     = (succeeded (tracking_calls ''/repo/.git'' ''origin'' ''feature'' ''c2c2''),
        Inr (Conflicts [conflict (changed_msg ''a.txt'' ''feature'')]))
   \<and> prepare repo_conflict (args_for ''dev'') []
     = ([], Inr (''dev'', ''c1c1'', ''refs/heads/dev'', [],
                 [conflict (changed_msg ''a.txt'' ''dev'')]))
   \<and> checkout repo_conflict (args_for ''dev'') []
     = ([], Inr (Conflicts [conflict (changed_msg ''a.txt'' ''dev'')]))"
  using conflicts_returned_before_apply [OF prepare_repo_conflict]
    conflicts_returned_before_apply [OF prepare_repo_conflict_local]
    prepare_repo_conflict prepare_repo_conflict_local
  by simp

text \<open>
  C2 as stated fails: checking out \<^verbatim>\<open>feature\<close>, which exists only as
  \<^verbatim>\<open>origin/feature\<close>, over a conflicting edit of \<^verbatim>\<open>a.txt\<close> returns the conflict,
  and the branch file has been written (line 67) before the walk.
\<close>

theorem conflicts_no_mutation_counterexample:
  "snd (checkout repo_conflict (args_for ''feature'') [])
     = Inr (Conflicts [conflict (changed_msg ''a.txt'' ''feature'')])
   \<and> (FsWrite ''/repo/.git/refs/heads/feature'' (''c2c2'' @ newline) None, None)
       \<in> set (fst (checkout repo_conflict (args_for ''feature'') []))"
  by (simp add: run_defs repo_conflict_def repo_def edited_both_def)

section \<open>The tracking branch\<close>

text \<open>
  C6. When \<^verbatim>\<open>ref\<close> does not resolve and \<^verbatim>\<open><remote>/<ref>\<close> resolves to an oid,
  and the config store and the file system accept the calls, checkout first sets
  \<^verbatim>\<open>branch.<ref>.remote\<close> to the remote and \<^verbatim>\<open>branch.<ref>.merge\<close> to
  \<^verbatim>\<open>refs/heads/<ref>\<close>, and writes the oid and a newline to
  \<^verbatim>\<open><gitdir>/refs/heads/<ref>\<close>.
\<close>

theorem tracking_branch_created:
  assumes "arg_ref a = Some ref"
    and "resolve E h (gitdir_of E a) ref None = Inl e0"
    and "resolve E h (gitdir_of E a) (remote_of a @ ''/'' @ ref) None = Inr target"
    and "all_succeed E h (tracking_calls (gitdir_of E a) (remote_of a) ref target)"
  shows "prefix (h @ succeeded (tracking_calls (gitdir_of E a) (remote_of a) ref target))
           (fst (checkout E a h))"
proof -
  have "resolve_target E h (gitdir_of E a) (remote_of a) ref
     = (h @ succeeded (tracking_calls (gitdir_of E a) (remote_of a) ref target), Inr target)"
    using assms(2-4) by (rule resolve_target_tracking)
  with assms(1) have "fst (prepare E a h)
     = h @ succeeded (tracking_calls (gitdir_of E a) (remote_of a) ref target)"
    by (rule prepare_fst)
  with checkout_prefix [of E a h] show ?thesis by simp
qed

theorem tracking_branch_created_witness:
  "arg_ref (args_for ''feature'') = Some ''feature''
   \<and> resolve repo [] (gitdir_of repo (args_for ''feature'')) ''feature'' None = Inl (no_ref ''feature'')
   \<and> resolve repo [] (gitdir_of repo (args_for ''feature''))
        (remote_of (args_for ''feature'') @ ''/'' @ ''feature'') None = Inr ''c2c2''
   \<and> all_succeed repo [] (tracking_calls ''/repo/.git'' ''origin'' ''feature'' ''c2c2'')
   \<and> prefix
       [(ConfigSet ''/repo/.git'' ''branch.feature.remote'' ''origin'', None),
        (ConfigSet ''/repo/.git'' ''branch.feature.merge'' ''refs/heads/feature'', None),
        (FsWrite ''/repo/.git/refs/heads/feature'' (''c2c2'' @ newline) None, None)]
       (fst (checkout repo (args_for ''feature'') []))"
  using tracking_branch_created [of "args_for ''feature''" "''feature''" repo "[]"
      "no_ref ''feature''" "''c2c2''"]
  by (simp add: repo_def args_for_def gitdir_of_def default_gitdir_def remote_of_def
      tracking_calls_def succeeded_def)


section \<open>The second walk\<close>

text \<open>
  C5, as the code has it. For every entry of the new tree other than the root: a
  \<^verbatim>\<open>tree\<close> creates the directory when the working directory lacks it; a
  \<^verbatim>\<open>commit\<close> (submodule) is skipped; a \<^verbatim>\<open>blob\<close> is written as a regular file
  (\<^verbatim>\<open>100644\<close>), with permission \<^verbatim>\<open>0o755\<close> (\<^verbatim>\<open>100755\<close>) or as a symlink
  (\<^verbatim>\<open>120000\<close>), and then inserted into the index with its oid and the stat that
  \<^verbatim>\<open>lstat\<close> returns after the write, whose mode is replaced by \<^verbatim>\<open>0o755\<close> when
  the blob's mode is \<^verbatim>\<open>100755\<close>; a blob of any other mode throws
  \<open>InternalFail\<close> before anything is written; an entry of any other type throws
  \<open>ObjectTypeAssertionInTreeFail\<close>.
\<close>

theorem materialize_map_by_type:
  assumes "fullpath head \<noteq> ''.''" and "exists head"
  shows
   "(etype head = Some ''tree'' \<longrightarrow>
       materialize_map E dir (head, workdir) h
         = (if exists workdir then (h, Inr ())
            else perform E h (FsMkdir (dir @ ''/'' @ fullpath head))))
    \<and> (etype head = Some ''commit'' \<longrightarrow> materialize_map E dir (head, workdir) h = (h, Inr ()))
    \<and> (etype head = Some ''blob'' \<and> mode head = Some ''100644'' \<longrightarrow>
         write_blob E h (dir @ ''/'' @ fullpath head) head
           = perform E h (FsWrite (dir @ ''/'' @ fullpath head) (content head) None))
    \<and> (etype head = Some ''blob'' \<and> mode head = Some ''100755'' \<longrightarrow>
         write_blob E h (dir @ ''/'' @ fullpath head) head
           = perform E h (FsWrite (dir @ ''/'' @ fullpath head) (content head) (Some 493)))
    \<and> (etype head = Some ''blob'' \<and> mode head = Some ''120000'' \<longrightarrow>
         write_blob E h (dir @ ''/'' @ fullpath head) head
           = perform E h (FsWritelink (dir @ ''/'' @ fullpath head) (content head)))
    \<and> (etype head = Some ''blob''
          \<and> write_blob E h (dir @ ''/'' @ fullpath head) head = (h1, Inr ())
          \<and> lstat E h1 (dir @ ''/'' @ fullpath head) = Inr st \<longrightarrow>
         materialize_map E dir (head, workdir) h
           = perform E h1
               (IndexInsert (fullpath head)
                  (if mode head = Some ''100755'' then st\<lparr>stat_mode := 493\<rparr> else st)
                  (oid head)))
    \<and> (etype head = Some ''blob''
          \<and> mode head \<noteq> Some ''100644'' \<and> mode head \<noteq> Some ''100755''
          \<and> mode head \<noteq> Some ''120000'' \<longrightarrow>
         materialize_map E dir (head, workdir) h
           = (h, Inl (GitError InternalFail [(''message'', Some (invalid_mode_msg head))])))
    \<and> (etype head \<noteq> Some ''tree'' \<and> etype head \<noteq> Some ''commit''
          \<and> etype head \<noteq> Some ''blob'' \<longrightarrow>
         materialize_map E dir (head, workdir) h
           = (h, Inl (GitError ObjectTypeAssertionInTreeFail
                        [(''type'', etype head), (''oid'', oid head),
                         (''entrypath'', Some (fullpath head))])))"
  using assms
  by (simp add: materialize_map_def Let_def write_blob_def record_blob_def then_do_def)

theorem materialize_map_by_type_witness:
  "fullpath (blob_entry ''run.sh'' ''100755'' ''b6'' ''#!'') \<noteq> ''.''
   \<and> exists (blob_entry ''run.sh'' ''100755'' ''b6'' ''#!'')
   \<and> etype (blob_entry ''run.sh'' ''100755'' ''b6'' ''#!'') = Some ''blob''
   \<and> write_blob repo_exec [] (''/repo'' @ ''/'' @ ''run.sh'') (blob_entry ''run.sh'' ''100755'' ''b6'' ''#!'')
       = ([(FsWrite ''/repo/run.sh'' ''#!'' (Some 493), None)], Inr ())
   \<and> lstat repo_exec [(FsWrite ''/repo/run.sh'' ''#!'' (Some 493), None)] ''/repo/run.sh''
       = Inr exec_stat
   \<and> materialize_map repo_exec ''/repo''
        (blob_entry ''run.sh'' ''100755'' ''b6'' ''#!'', absent_entry ''run.sh'') []
       = ([(FsWrite ''/repo/run.sh'' ''#!'' (Some 493), None),
           (IndexInsert ''run.sh'' (exec_stat\<lparr>stat_mode := 493\<rparr>) (Some ''b6''), None)], Inr ())
   \<and> materialize_map repo_exec ''/repo'' (tree_entry ''lib'' ''t1'', absent_entry ''lib'') []
       = ([(FsMkdir ''/repo/lib'', None)], Inr ())
   \<and> materialize_map repo_exec ''/repo''
        (blob_entry ''odd'' ''100600'' ''b7'' ''x'', absent_entry ''odd'') []
       = ([], Inl (GitError InternalFail
                [(''message'', Some (invalid_mode_msg (blob_entry ''odd'' ''100600'' ''b7'' ''x'')))]))
   \<and> materialize_map repo_exec ''/repo''
        ((blob_entry ''v1'' ''100644'' ''b8'' ''x'')\<lparr>etype := Some ''tag''\<rparr>, absent_entry ''v1'') []
       = ([], Inl (GitError ObjectTypeAssertionInTreeFail
                [(''type'', Some ''tag''), (''oid'', Some ''b8''), (''entrypath'', Some ''v1'')]))"
  using materialize_map_by_type [of "blob_entry ''run.sh'' ''100755'' ''b6'' ''#!''" repo_exec
      "''/repo''" "absent_entry ''run.sh''" "[]"
      "[(FsWrite ''/repo/run.sh'' ''#!'' (Some 493), None)]" exec_stat]
    materialize_map_by_type [of "tree_entry ''lib'' ''t1''" repo_exec
      "''/repo''" "absent_entry ''lib''" "[]"]
    materialize_map_by_type [of "blob_entry ''odd'' ''100600'' ''b7'' ''x''" repo_exec
      "''/repo''" "absent_entry ''odd''" "[]"]
    materialize_map_by_type [of "(blob_entry ''v1'' ''100644'' ''b8'' ''x'')\<lparr>etype := Some ''tag''\<rparr>"
      repo_exec "''/repo''" "absent_entry ''v1''" "[]"]
  by (simp add: repo_exec_def repo_def blob_entry_def absent_entry_def tree_entry_def
      write_blob_def perform_def)

text \<open>
  C5 as stated fails: for an executable blob the index does not receive the stat that
  \<^verbatim>\<open>lstat\<close> returned after the write (mode 33261) but one whose mode is 493
  (lines 289 to 291).
\<close>

theorem index_stat_counterexample:
  "lstat repo_exec [(FsWrite ''/repo/run.sh'' ''#!'' (Some 493), None)] ''/repo/run.sh''
     = Inr exec_stat
   \<and> fst (materialize_map repo_exec ''/repo''
        (blob_entry ''run.sh'' ''100755'' ''b6'' ''#!'', absent_entry ''run.sh'') [])
     = [(FsWrite ''/repo/run.sh'' ''#!'' (Some 493), None),
        (IndexInsert ''run.sh'' \<lparr>stat_mode = 493, stat_rest = []\<rparr> (Some ''b6''), None)]
   \<and> (IndexInsert ''run.sh'' exec_stat (Some ''b6''), None)
       \<notin> set (fst (materialize_map repo_exec ''/repo''
            (blob_entry ''run.sh'' ''100755'' ''b6'' ''#!'', absent_entry ''run.sh'') []))"
  by (simp add: materialize_map_def write_blob_def record_blob_def then_do_def perform_def
      repo_exec_def repo_def exec_stat_def blob_entry_def absent_entry_def Let_def)

text \<open>
  C7. When the second walk throws, the error that leaves the \<^verbatim>\<open>catch\<close> is
  \<open>CommitNotFetchedError\<close> for the ref and the target oid exactly when the thrown
  error has the code \<open>ReadObjectFail\<close> and its \<^verbatim>\<open>data.oid\<close> is the oid of the
  checkout target; any other error is thrown again as it is. In both cases
  \<^verbatim>\<open>HEAD\<close> is not written.
\<close>

theorem read_failure_relabelled:
  assumes "run_materialize E dir (walk_materialize E h dir gitdir ref) h = (h', Inl err)"
  shows "rebuild E dir gitdir ref target fullRef h
     = (h', Inl (if code err = ReadObjectFail \<and> data_get err ''oid'' = Some target
                 then GitError CommitNotFetchedError [(''ref'', Some ref), (''oid'', Some target)]
                 else err))"
  using assms by (simp add: rebuild_def relabel_def)

theorem read_failure_relabelled_witness:
  "run_materialize (repo_unfetched ''c1c1'') ''/repo''
      (walk_materialize (repo_unfetched ''c1c1'') [] ''/repo'' ''/repo/.git'' ''dev'') []
     = ([], Inl (unfetched ''c1c1''))
   \<and> rebuild (repo_unfetched ''c1c1'') ''/repo'' ''/repo/.git'' ''dev'' ''c1c1'' ''refs/heads/dev'' []
     = ([], Inl (GitError CommitNotFetchedError [(''ref'', Some ''dev''), (''oid'', Some ''c1c1'')]))
   \<and> run_materialize (repo_unfetched ''b9'') ''/repo''
      (walk_materialize (repo_unfetched ''b9'') [] ''/repo'' ''/repo/.git'' ''dev'') []
     = ([], Inl (unfetched ''b9''))
   \<and> rebuild (repo_unfetched ''b9'') ''/repo'' ''/repo/.git'' ''dev'' ''c1c1'' ''refs/heads/dev'' []
     = ([], Inl (unfetched ''b9''))"
  using read_failure_relabelled [of "repo_unfetched ''c1c1''" "''/repo''" "[]" "''/repo/.git''"
      "''dev''" "[]" "unfetched ''c1c1''" "''c1c1''" "''refs/heads/dev''"]
    read_failure_relabelled [of "repo_unfetched ''b9''" "''/repo''" "[]" "''/repo/.git''"
      "''dev''" "[]" "unfetched ''b9''" "''c1c1''" "''refs/heads/dev''"]
  by (simp add: repo_unfetched_def repo_def unfetched_def GitError_def data_get_def)

text \<open>The same at the level of the command, where the outer \<^verbatim>\<open>catch\<close> adds the caller.\<close>

lemma checkout_unfetched:
  "checkout (repo_unfetched ''c1c1'') (args_for ''dev'') []
     = ([(Acquire ''/repo/.git/index'', None), (IndexClear, None), (Release, None)],
        Inl ((GitError CommitNotFetchedError [(''ref'', Some ''dev''), (''oid'', Some ''c1c1'')])
               \<lparr>caller := Some ''git.checkout''\<rparr>))"
  by (simp add: run_defs repo_unfetched_def repo_def unfetched_def GitError_def data_get_def
      relabel_def)

section \<open>The loop over the queued writes\<close>

text \<open>
  A queued write of a regular file never gets past the second loop, whatever the
  object store answers: either the type check throws, or the undeclared
  \<^verbatim>\<open>filepath\<close> does.
\<close>

lemma apply_writes_regular_file_throws:
  "\<exists>err. apply_writes E gitdir (Write filepath target (Some ''100644'') # ops) h = Inl err"
  by (cases "readObject E h gitdir target") (auto split: prod.splits)

lemma apply_writes_throws:
  "Write filepath target (Some ''100644'') \<in> set ops \<Longrightarrow> \<exists>err. apply_writes E gitdir ops h = Inl err"
proof (induction ops)
  case Nil
  then show ?case by simp
next
  case (Cons op ops)
  show ?case
  proof (cases op)
    case (Unlink p)
    with Cons show ?thesis by simp
  next
    case (Write p t m)
    show ?thesis
    proof (cases "readObject E h gitdir t")
      case (Inl err)
      with Write show ?thesis by simp
    next
      case (Inr v)
      obtain ty ob where v: "v = (ty, ob)" by (cases v)
      show ?thesis
      proof (cases "ty \<noteq> Some ''blob'' \<or> m = Some ''100644''")
        case True
        with Write Inr v show ?thesis by auto
      next
        case False
        with Write Cons.prems have "Write filepath target (Some ''100644'') \<in> set ops" by auto
        then have "\<exists>err. apply_writes E gitdir ops h = Inl err" by (rule Cons.IH)
        with Write Inr v False show ?thesis by simp
      qed
    qed
  qed
qed

text \<open>
  The function that runs under the lock begins with the removals of the first loop,
  and with such a write in the plan it ends right after them.
\<close>

lemma locked_starts_with_unlinks:
  "prefix (apply_unlinks E dir ops h) (fst (locked E dir gitdir ref target fullRef ops h))"
proof (cases "apply_writes E gitdir ops (apply_unlinks E dir ops h)")
  case (Inl err)
  then show ?thesis by (simp add: locked_def Let_def)
next
  case (Inr u)
  let ?h1 = "apply_unlinks E dir ops h"
  let ?h2 = "remove_entries E dir (index_paths E ?h1 gitdir) ?h1"
  have "prefix ?h1 ?h2" by (rule remove_entries_prefix)
  also have "prefix ?h2 (fst (then_do (perform E ?h2 IndexClear)
             (\<lambda>h3 _. rebuild E dir gitdir ref target fullRef h3)))"
    by (rule then_do_prefix) (simp_all add: perform_prefix rebuild_prefix)
  finally show ?thesis using Inr by (simp add: locked_def Let_def)
qed

lemma locked_stops_at_regular_write:
  assumes "Write filepath t (Some ''100644'') \<in> set ops"
  shows "\<exists>err. locked E dir gitdir ref target fullRef ops h = (apply_unlinks E dir ops h, Inl err)"
proof -
  obtain err where "apply_writes E gitdir ops (apply_unlinks E dir ops h) = Inl err"
    using apply_writes_throws [OF assms] by blast
  then show ?thesis by (simp add: locked_def Let_def)
qed

text \<open>The two ways in which it throws, in the example repository.\<close>

lemma queued_write_examples:
  "snd (checkout repo_added (args_for ''dev'') [])
     = Inl ((GitError ObjectTypeAssertionInTreeFail
              [(''type'', None), (''oid'', Some ''b4''), (''entrypath'', None)])
            \<lparr>caller := Some ''git.checkout''\<rparr>)
   \<and> snd (checkout (repo_added\<lparr>readObject := (\<lambda>h gitdir target. Inr (Some ''blob'', Some ''new''))\<rparr>)
          (args_for ''dev'') [])
     = Inl ((GitError ReferenceError [(''message'', Some ''filepath is not defined'')])
            \<lparr>caller := Some ''git.checkout''\<rparr>)"
  by (simp add: run_defs repo_added_def repo_def added_upstream_def GitError_def)

text \<open>
  C4 fails on the code. Checking out \<^verbatim>\<open>dev\<close> when its tree adds the regular file
  \<^verbatim>\<open>b.txt\<close>: the lock is taken, the second loop throws, the lock is released;
  the index is neither cleared nor rebuilt, nothing is written, \<^verbatim>\<open>HEAD\<close> stays.
\<close>

theorem queued_write_throws:
  "fst (checkout (repo_added\<lparr>readObject := ro\<rparr>) (args_for ''dev'') [])
     = [(Acquire ''/repo/.git/index'', None), (Release, None)]
   \<and> isl (snd (checkout (repo_added\<lparr>readObject := ro\<rparr>) (args_for ''dev'') []))"
proof -
  obtain err where
    "apply_writes (repo_added\<lparr>readObject := ro\<rparr>) ''/repo/.git''
       [Write ''b.txt'' (Some ''b4'') (Some ''100644'')] [(Acquire ''/repo/.git/index'', None)] = Inl err"
    using apply_writes_regular_file_throws by blast
  then show ?thesis
    by (simp add: run_defs repo_added_def repo_def added_upstream_def)
qed

section \<open>The write of HEAD\<close>

text \<open>
  C8 fails on the code. A successful checkout of \<^verbatim>\<open>main\<close> with one tracked
  file: the write of \<^verbatim>\<open>HEAD\<close> is the last call of the function that runs under
  the lock, after the index was cleared and rebuilt, and its content is
  \<^verbatim>\<open>ref: refs/heads/main\<close> with no newline after it.
\<close>

theorem head_written_without_newline:
  "checkout repo_tracked (args_for ''main'') []
     = ([(Acquire ''/repo/.git/index'', None),
         (FsRm ''/repo/a.txt'', None),
         (IndexClear, None),
         (FsWrite ''/repo/a.txt'' ''old'' None, None),
         (IndexInsert ''a.txt'' \<lparr>stat_mode = 33188, stat_rest = []\<rparr> (Some ''b1''), None),
         (FsWrite ''/repo/.git/HEAD'' ''ref: refs/heads/main'' None, None),
         (IndexSave ''/repo/.git/index'', None), (Release, None)], Inr Done)
   \<and> (FsWrite ''/repo/.git/HEAD'' (''ref: refs/heads/main'' @ newline) None, None)
       \<notin> set (fst (checkout repo_tracked (args_for ''main'') []))"
  by (simp add: run_defs repo_tracked_def repo_def newline_def write_blob_def record_blob_def)

text \<open>
  In general: when the function that runs under the lock returns, the last call it
  made is the write of \<^verbatim>\<open>ref: \<close> followed by the expanded ref, and nothing else,
  to \<^verbatim>\<open>HEAD\<close>.
\<close>

lemma rebuild_ends_with_head:
  assumes "rebuild E dir gitdir ref target fullRef h = (h', Inr u)"
  shows "\<exists>h4. h' = h4 @ [(FsWrite (gitdir @ ''/HEAD'') (''ref: '' @ fullRef) None, None)]"
  using assms
  by (auto simp: rebuild_def perform_def split: prod.splits sum.splits option.splits)

lemma locked_ends_with_head:
  assumes "locked E dir gitdir ref target fullRef ops h = (h', Inr u)"
  shows "last h' = (FsWrite (gitdir @ ''/HEAD'') (''ref: '' @ fullRef) None, None)"
proof -
  from assms obtain h3 where "rebuild E dir gitdir ref target fullRef h3 = (h', Inr u)"
    by (auto simp: locked_def Let_def then_do_def split: sum.splits prod.splits)
  then obtain h4 where
    "h' = h4 @ [(FsWrite (gitdir @ ''/HEAD'') (''ref: '' @ fullRef) None, None)]"
    using rebuild_ends_with_head by blast
  then show ?thesis by simp
qed

end
